theory Spec2Isabelle
  imports Complex_Main "HOL-Library.AList"
begin

section \<open>Data model\<close>

text \<open>
  The services exchange the values that \<^verbatim>\<open>json.loads\<close> produces: \<^verbatim>\<open>None\<close>, booleans,
  numbers, strings, lists and dictionaries. A dictionary is an association list in
  insertion order; lookup is \<open>map_of\<close> and item assignment is \<open>AList.update\<close>, which
  replaces the value of a key in place and appends a new key at the end, as a Python
  \<^verbatim>\<open>dict\<close> does.

  Numbers are exact: Python's \<^verbatim>\<open>int\<close> and \<^verbatim>\<open>float\<close> are both embedded in \<open>real\<close>, so
  \<^verbatim>\<open>12000 == 12000.0\<close> holds as in Python, and the rounding of IEEE doubles, \<^verbatim>\<open>NaN\<close>
  and the infinities are outside the model. Text is a list of 8-bit characters and the
  character classes of the regular expressions are the ASCII ones.
\<close>

datatype json =
    JNull
  | JBool bool
  | JNum real
  | JStr string
  | JArr "json list"
  | JObj "(string \<times> json) list"

datatype py_error = TypeError | KeyError | AttributeError | ValueError

text \<open>\<^verbatim>\<open>RiskLevel\<close> of \<^verbatim>\<open>app/models/schemas.py\<close>, with the \<^verbatim>\<open>.value\<close> of each member.\<close>

datatype RiskLevel = CONSERVATIVE | MODERATE | AGGRESSIVE

fun risk_value :: "RiskLevel \<Rightarrow> string" where
  "risk_value CONSERVATIVE = ''conservative''"
| "risk_value MODERATE = ''moderate''"
| "risk_value AGGRESSIVE = ''aggressive''"

text \<open>\<^verbatim>\<open>UserProfile\<close>: the two \<^verbatim>\<open>Optional[float]\<close> fields may hold \<^verbatim>\<open>None\<close>.\<close>

record user_profile =
  age :: int
  annual_income :: real
  investment_experience :: string
  risk_tolerance :: RiskLevel
  financial_goals :: "string list"
  time_horizon :: int
  current_assets :: "real option"
  monthly_expenses :: "real option"

subsection \<open>Python operations on parsed values\<close>

text \<open>\<^verbatim>\<open>x.get(k, d)\<close>: only a dictionary has the method.\<close>

definition dict_get :: "json \<Rightarrow> string \<Rightarrow> json \<Rightarrow> py_error + json" where
  "dict_get x k d =
     (case x of
        JObj kvs \<Rightarrow> Inr (case map_of kvs k of Some v \<Rightarrow> v | None \<Rightarrow> d)
      | _ \<Rightarrow> Inl AttributeError)"

text \<open>
  An operand of \<^verbatim>\<open>+\<close>, \<^verbatim>\<open>*\<close>, \<^verbatim>\<open><\<close> or \<^verbatim>\<open>>\<close> against a number: numbers and booleans
  (\<^verbatim>\<open>True\<close> is 1, \<^verbatim>\<open>False\<close> is 0) are accepted, anything else raises \<^verbatim>\<open>TypeError\<close>.
\<close>

definition as_number :: "json \<Rightarrow> py_error + real" where
  "as_number v =
     (case v of
        JNum r \<Rightarrow> Inr r
      | JBool b \<Rightarrow> Inr (if b then 1 else 0)
      | _ \<Rightarrow> Inl TypeError)"

text \<open>
  The items a \<^verbatim>\<open>for\<close> loop sees: the elements of a list, the keys of a dictionary, the
  one-character strings of a string; other values are not iterable.
\<close>

definition iterate :: "json \<Rightarrow> py_error + json list" where
  "iterate v =
     (case v of
        JArr xs \<Rightarrow> Inr xs
      | JObj kvs \<Rightarrow> Inr (map (\<lambda>kv. JStr (fst kv)) kvs)
      | JStr s \<Rightarrow> Inr (map (\<lambda>c. JStr [c]) s)
      | _ \<Rightarrow> Inl TypeError)"

text \<open>
  Mutating the items of a list mutates the list held by the dictionary; the items of the
  other iterables are temporaries of the loop.
\<close>

definition store_back :: "json \<Rightarrow> json list \<Rightarrow> json" where
  "store_back v items = (case v of JArr _ \<Rightarrow> JArr items | _ \<Rightarrow> v)"

fun starts_with :: "string \<Rightarrow> string \<Rightarrow> bool" where
  "starts_with [] s = True"
| "starts_with (p # ps) [] = False"
| "starts_with (p # ps) (c # cs) = (p = c \<and> starts_with ps cs)"

text \<open>\<^verbatim>\<open>p in s\<close> on strings: \<open>p\<close> occurs in \<open>s\<close> as a substring.\<close>

fun contains :: "string \<Rightarrow> string \<Rightarrow> bool" where
  "contains p [] = (p = [])"
| "contains p (c # cs) = (starts_with p (c # cs) \<or> contains p cs)"

section \<open>The strategy validator\<close>

text \<open>
  \<^verbatim>\<open>FinancialAgentService._validate_strategy\<close> mutates the dictionary it was given and
  returns it, also from its \<^verbatim>\<open>except\<close> branch. Each step of the model therefore returns
  the dictionary as mutated so far together with the exception raised, if any.
\<close>

text \<open>
  \<^verbatim>\<open>sum(rec.get("allocation_percentage", 0) for rec in ...)\<close>, accumulating from 0.
\<close>

fun sum_allocations :: "real \<Rightarrow> json list \<Rightarrow> py_error + real" where
  "sum_allocations acc [] = Inr acc"
| "sum_allocations acc (r # rs) =
     (case dict_get r ''allocation_percentage'' (JNum 0) of
        Inl e \<Rightarrow> Inl e
      | Inr v \<Rightarrow>
          (case as_number v of
             Inl e \<Rightarrow> Inl e
           | Inr x \<Rightarrow> sum_allocations (acc + x) rs))"

text \<open>\<^verbatim>\<open>rec["allocation_percentage"] *= factor\<close> for one item.\<close>

definition scale_rec :: "real \<Rightarrow> json \<Rightarrow> py_error + json" where
  "scale_rec factor r =
     (case r of
        JObj kvs \<Rightarrow>
          (case map_of kvs ''allocation_percentage'' of
             None \<Rightarrow> Inl KeyError
           | Some v \<Rightarrow>
               (case as_number v of
                  Inl e \<Rightarrow> Inl e
                | Inr x \<Rightarrow>
                    Inr (JObj (AList.update ''allocation_percentage'' (JNum (x * factor)) kvs))))
      | _ \<Rightarrow> Inl TypeError)"

text \<open>
  The adjusting loop. When an item raises, the items before it stay scaled and the
  remaining ones are untouched.
\<close>

fun scale_all :: "real \<Rightarrow> json list \<Rightarrow> json list \<times> py_error option" where
  "scale_all factor [] = ([], None)"
| "scale_all factor (r # rs) =
     (case scale_rec factor r of
        Inl e \<Rightarrow> (r # rs, Some e)
      | Inr r' \<Rightarrow>
          (case scale_all factor rs of (rs', err) \<Rightarrow> (r' # rs', err)))"

definition adjust_allocations ::
  "(string \<times> json) list \<Rightarrow> (string \<times> json) list \<times> py_error option" where
  "adjust_allocations kvs =
     (case map_of kvs ''investment_recommendations'' of
        None \<Rightarrow> (kvs, None)
      | Some v \<Rightarrow>
          (case iterate v of
             Inl e \<Rightarrow> (kvs, Some e)
           | Inr recs \<Rightarrow>
               (case sum_allocations 0 recs of
                  Inl e \<Rightarrow> (kvs, Some e)
                | Inr total_allocation \<Rightarrow>
                    if \<bar>total_allocation - 100\<bar> > 1 then
                      (let factor = (if total_allocation > 0 then 100 / total_allocation else 1)
                       in case scale_all factor recs of
                            (recs', err) \<Rightarrow>
                              (AList.update ''investment_recommendations'' (store_back v recs') kvs,
                               err))
                    else (kvs, None))))"

text \<open>
  The emergency-fund block. \<^verbatim>\<open>if user_profile.monthly_expenses:\<close> skips it for \<^verbatim>\<open>None\<close>
  and for 0.
\<close>

definition validate_emergency_fund ::
  "user_profile \<Rightarrow> (string \<times> json) list \<Rightarrow> (string \<times> json) list \<times> py_error option" where
  "validate_emergency_fund user_profile kvs =
     (case monthly_expenses user_profile of
        None \<Rightarrow> (kvs, None)
      | Some expenses \<Rightarrow>
          if expenses = 0 then (kvs, None)
          else
            (let min_emergency = expenses * 3;
                 max_emergency = expenses * 12;
                 current_target =
                   (case map_of kvs ''emergency_fund_target'' of Some v \<Rightarrow> v | None \<Rightarrow> JNum 0)
             in case as_number current_target of
                  Inl e \<Rightarrow> (kvs, Some e)
                | Inr t \<Rightarrow>
                    if t < min_emergency then
                      (AList.update ''emergency_fund_target'' (JNum min_emergency) kvs, None)
                    else if t > max_emergency then
                      (AList.update ''emergency_fund_target'' (JNum max_emergency) kvs, None)
                    else (kvs, None)))"

definition expenses_known :: "user_profile \<Rightarrow> bool" where
  "expenses_known user_profile =
     (case monthly_expenses user_profile of None \<Rightarrow> False | Some expenses \<Rightarrow> expenses \<noteq> 0)"

text \<open>
  The body of the \<^verbatim>\<open>try\<close>. A strategy that is not a dictionary is never mutated: on a
  list or a string \<^verbatim>\<open>"investment_recommendations" in strategy\<close> is a membership or
  substring test, and the subscript or the \<^verbatim>\<open>.get\<close> that follows raises; on the other
  values the \<^verbatim>\<open>in\<close> itself raises.
\<close>

definition validate_strategy_try :: "json \<Rightarrow> user_profile \<Rightarrow> json \<times> py_error option" where
  "validate_strategy_try strategy user_profile =
     (case strategy of
        JObj kvs \<Rightarrow>
          (case adjust_allocations kvs of
             (kvs1, Some e) \<Rightarrow> (JObj kvs1, Some e)
           | (kvs1, None) \<Rightarrow>
               (case validate_emergency_fund user_profile kvs1 of
                  (kvs2, err) \<Rightarrow> (JObj kvs2, err)))
      | JArr xs \<Rightarrow>
          if JStr ''investment_recommendations'' \<in> set xs then (strategy, Some TypeError)
          else if expenses_known user_profile then (strategy, Some AttributeError)
          else (strategy, None)
      | JStr s \<Rightarrow>
          if contains ''investment_recommendations'' s then (strategy, Some TypeError)
          else if expenses_known user_profile then (strategy, Some AttributeError)
          else (strategy, None)
      | _ \<Rightarrow> (strategy, Some TypeError))"

text \<open>
  \<^verbatim>\<open>_validate_strategy\<close>: both the normal return and the \<^verbatim>\<open>except Exception\<close> branch
  return the (possibly mutated) strategy object.
\<close>

definition validate_strategy :: "json \<Rightarrow> user_profile \<Rightarrow> json" where
  "validate_strategy strategy user_profile = fst (validate_strategy_try strategy user_profile)"

text \<open>
  The two outcomes that the services distinguish after calling the language model: the
  call (or anything else inside the outer \<^verbatim>\<open>try\<close>) raised, or it returned the text
  \<open>result\<close>; in the second case the model is given what \<^verbatim>\<open>json.loads(result.strip())\<close>
  produced, \<open>None\<close> standing for \<^verbatim>\<open>JSONDecodeError\<close>. The completion service and the
  JSON parser are libraries outside the repository.
\<close>

datatype llm_outcome = Failed | Returned string "json option"

section \<open>The fallback strategy\<close>

fun show_nat :: "nat \<Rightarrow> string" where
  "show_nat n =
     (if n < 10 then [''0123456789'' ! n]
      else show_nat (n div 10) @ [''0123456789'' ! (n mod 10)])"

definition show_int :: "int \<Rightarrow> string" where
  "show_int i = (if i < 0 then CHR ''-'' # show_nat (nat (- i)) else show_nat (nat i))"

text \<open>
  \<^verbatim>\<open>round(x, 1)\<close> on exact numbers: the nearest multiple of one tenth, a tie going to
  the even one.
\<close>

definition round_half_even :: "real \<Rightarrow> int" where
  "round_half_even x =
     (let f = \<lfloor>x\<rfloor>; d = x - of_int f
      in if d < 1 / 2 then f else if d > 1 / 2 then f + 1 else if even f then f else f + 1)"

definition py_round1 :: "real \<Rightarrow> real" where
  "py_round1 x = of_int (round_half_even (x * 10)) / 10"

text \<open>The integer stock and bond shares before normalisation.\<close>

definition basic_allocation :: "RiskLevel \<Rightarrow> int \<Rightarrow> int \<times> int" where
  "basic_allocation risk_level a =
     (if risk_level = CONSERVATIVE then (max 30 (100 - a), min 70 (a + 20))
      else if risk_level = AGGRESSIVE then (min 90 (120 - a), max 10 (a - 20))
      else (max 40 (110 - a), min 60 (a + 10)))"

text \<open>\<^verbatim>\<open>user_profile.monthly_expenses or 3000\<close>.\<close>

definition expenses_or_default :: "user_profile \<Rightarrow> real" where
  "expenses_or_default user_profile =
     (case monthly_expenses user_profile of
        None \<Rightarrow> 3000
      | Some expenses \<Rightarrow> if expenses = 0 then 3000 else expenses)"

definition generate_fallback_strategy :: "user_profile \<Rightarrow> json" where
  "generate_fallback_strategy user_profile =
     (let a = age user_profile;
          risk_level = risk_tolerance user_profile;
          stock = fst (basic_allocation risk_level a);
          bond = snd (basic_allocation risk_level a);
          total_allocation = stock + bond;
          stock_allocation = real_of_int stock / real_of_int total_allocation * 100;
          bond_allocation = real_of_int bond / real_of_int total_allocation * 100
      in JObj
        [(''strategy_summary'',
            JStr (''Balanced '' @ risk_value risk_level @ '' strategy appropriate for age ''
                  @ show_int a)),
         (''investment_recommendations'',
            JArr
              [JObj
                 [(''asset_class'', JStr ''Stocks''),
                  (''allocation_percentage'', JNum (py_round1 stock_allocation)),
                  (''rationale'',
                     JStr ''Growth potential appropriate for age and risk tolerance''),
                  (''risk_level'', JStr (risk_value risk_level))],
               JObj
                 [(''asset_class'', JStr ''Bonds''),
                  (''allocation_percentage'', JNum (py_round1 bond_allocation)),
                  (''rationale'', JStr ''Stability and income generation''),
                  (''risk_level'', JStr ''conservative'')]]),
         (''monthly_savings_target'', JNum (annual_income user_profile * 0.15 / 12)),
         (''emergency_fund_target'', JNum (expenses_or_default user_profile * 6)),
         (''key_actions'',
            JArr
              [JStr ''Open investment accounts if not already done'',
               JStr ''Set up automatic monthly contributions'',
               JStr ''Review and rebalance quarterly'']),
         (''risk_warnings'',
            JArr
              [JStr ''Market volatility can affect portfolio value'',
               JStr (''Past performance doesn'' @ [CHR 0x27]
                     @ ''t guarantee future results'')]),
         (''review_timeline'', JStr ''Review annually or when life circumstances change'')])"

text \<open>
  \<^verbatim>\<open>generate_financial_strategy\<close>: a parsed strategy is validated, everything else
  falls back.
\<close>

definition generate_financial_strategy :: "user_profile \<Rightarrow> llm_outcome \<Rightarrow> json" where
  "generate_financial_strategy user_profile outcome =
     (case outcome of
        Failed \<Rightarrow> generate_fallback_strategy user_profile
      | Returned result None \<Rightarrow> generate_fallback_strategy user_profile
      | Returned result (Some strategy) \<Rightarrow> validate_strategy strategy user_profile)"

section \<open>Risk assessment\<close>

definition generate_fallback_risk_assessment :: json where
  "generate_fallback_risk_assessment =
     JObj
       [(''overall_risk_score'', JNum 0.5),
        (''risk_level'', JStr ''moderate''),
        (''risk_factors'',
           JArr
             [JObj
                [(''factor_name'', JStr ''Market Volatility''),
                 (''severity'', JStr ''medium''),
                 (''impact_score'', JNum 0.6),
                 (''mitigation_strategies'',
                    JArr [JStr ''Diversification'', JStr ''Dollar-cost averaging''])]]),
        (''recommendations'',
           JArr [JStr ''Maintain diversified portfolio'', JStr ''Regular risk assessment'']),
        (''confidence_score'', JNum 0.7)]"

text \<open>
  \<^verbatim>\<open>assess_financial_risk\<close>: the parsed value is returned as it is; a text that does not
  parse and a failed call both give the fixed fallback. The financial data and the
  scenario only feed the prompt.
\<close>

definition assess_financial_risk :: "json \<Rightarrow> string \<Rightarrow> llm_outcome \<Rightarrow> json" where
  "assess_financial_risk financial_data scenario_type outcome =
     (case outcome of
        Failed \<Rightarrow> generate_fallback_risk_assessment
      | Returned result None \<Rightarrow> generate_fallback_risk_assessment
      | Returned result (Some risk_assessment) \<Rightarrow> risk_assessment)"

section \<open>Compliance analysis\<close>

subsection \<open>The regular expressions of the fallback parser\<close>

definition is_digit :: "char \<Rightarrow> bool" where
  "is_digit c = (c \<in> set ''0123456789'')"

definition is_word :: "char \<Rightarrow> bool" where
  "is_word c =
     (c \<in> set ''abcdefghijklmnopqrstuvwxyzABCDEFGHIJKLMNOPQRSTUVWXYZ0123456789_'')"

definition is_quote :: "char \<Rightarrow> bool" where
  "is_quote c = (c = CHR 0x22 \<or> c = CHR 0x27)"

definition lower :: "char \<Rightarrow> char" where
  "lower c =
     (if c \<in> set ''ABCDEFGHIJKLMNOPQRSTUVWXYZ'' then char_of (of_char c + (32::nat)) else c)"

text \<open>Matching a literal under \<^verbatim>\<open>re.IGNORECASE\<close>.\<close>

definition starts_with_ci :: "string \<Rightarrow> string \<Rightarrow> bool" where
  "starts_with_ci p s = starts_with (map lower p) (map lower s)"

definition contains_ci :: "string \<Rightarrow> string \<Rightarrow> bool" where
  "contains_ci p s = contains (map lower p) (map lower s)"

text \<open>
  \<^verbatim>\<open>["\'](\w+)["\']\<close> at the head of \<open>s\<close>. The greedy \<^verbatim>\<open>\w+\<close> takes the whole run of word
  characters; a shorter run is followed by a word character, never by a quote.
\<close>

definition quoted_word :: "string \<Rightarrow> string option" where
  "quoted_word s =
     (case s of
        [] \<Rightarrow> None
      | q # r \<Rightarrow>
          if is_quote q \<and> takeWhile is_word r \<noteq> [] \<and>
             (case dropWhile is_word r of [] \<Rightarrow> False | q' # _ \<Rightarrow> is_quote q')
          then Some (takeWhile is_word r)
          else None)"

text \<open>
  \<^verbatim>\<open>.*?["\'](\w+)["\']\<close> at the head of \<open>s\<close>: the lazy \<^verbatim>\<open>.*?\<close> tries the shortest skip
  first and cannot pass a newline.
\<close>

fun lazy_quoted_word :: "string \<Rightarrow> string option" where
  "lazy_quoted_word [] = None"
| "lazy_quoted_word (c # cs) =
     (case quoted_word (c # cs) of
        Some w \<Rightarrow> Some w
      | None \<Rightarrow> if c = CHR 0x0A then None else lazy_quoted_word cs)"

text \<open>
  Group 1 of \<^verbatim>\<open>re.search(r'compliance_status.*?["\'](\w+)["\']', s, re.IGNORECASE)\<close>:
  the leftmost start position at which the pattern matches.
\<close>

fun search_status :: "string \<Rightarrow> string option" where
  "search_status [] = None"
| "search_status (c # cs) =
     (if starts_with_ci ''compliance_status'' (c # cs) then
        (case lazy_quoted_word (drop (length ''compliance_status'') (c # cs)) of
           Some w \<Rightarrow> Some w
         | None \<Rightarrow> search_status cs)
      else search_status cs)"

text \<open>\<^verbatim>\<open>(\d+\.?\d*)\<close> at the head of \<open>s\<close>; every part is greedy and nothing follows it.\<close>

definition number_token :: "string \<Rightarrow> string option" where
  "number_token s =
     (if takeWhile is_digit s = [] then None
      else Some (takeWhile is_digit s @
                 (case dropWhile is_digit s of
                    [] \<Rightarrow> []
                  | c # r \<Rightarrow> if c = CHR ''.'' then c # takeWhile is_digit r else [])))"

fun lazy_number :: "string \<Rightarrow> string option" where
  "lazy_number [] = None"
| "lazy_number (c # cs) =
     (case number_token (c # cs) of
        Some w \<Rightarrow> Some w
      | None \<Rightarrow> if c = CHR 0x0A then None else lazy_number cs)"

text \<open>Group 1 of \<^verbatim>\<open>re.search(r'confidence_score.*?(\d+\.?\d*)', s)\<close>.\<close>

fun search_confidence :: "string \<Rightarrow> string option" where
  "search_confidence [] = None"
| "search_confidence (c # cs) =
     (if starts_with ''confidence_score'' (c # cs) then
        (case lazy_number (drop (length ''confidence_score'') (c # cs)) of
           Some w \<Rightarrow> Some w
         | None \<Rightarrow> search_confidence cs)
      else search_confidence cs)"

text \<open>
  \<^verbatim>\<open>re.findall(r'"([^"]*kw[^"]*)"', s, re.IGNORECASE)\<close>: a double quote opens a match
  when the text up to the next double quote contains the keyword; the scan resumes after
  the closing quote of a match, and at the next character otherwise.
\<close>

function findall_quoted :: "string \<Rightarrow> string \<Rightarrow> string list" where
  "findall_quoted kw [] = []"
| "findall_quoted kw (c # cs) =
     (if c = CHR 0x22 \<and> dropWhile (\<lambda>x. x \<noteq> CHR 0x22) cs \<noteq> [] \<and>
         contains_ci kw (takeWhile (\<lambda>x. x \<noteq> CHR 0x22) cs)
      then takeWhile (\<lambda>x. x \<noteq> CHR 0x22) cs
           # findall_quoted kw (tl (dropWhile (\<lambda>x. x \<noteq> CHR 0x22) cs))
      else findall_quoted kw cs)"
  by pat_completeness auto
termination
proof (relation "measure (\<lambda>(kw, s). length s)")
  fix kw :: string and c :: char and cs :: string
  have "length (tl (dropWhile (\<lambda>x. x \<noteq> CHR 0x22) cs)) \<le> length cs"
    using length_dropWhile_le [of "\<lambda>x. x \<noteq> CHR 0x22" cs] by simp
  then show "((kw, tl (dropWhile (\<lambda>x. x \<noteq> CHR 0x22) cs)), (kw, c # cs))
               \<in> measure (\<lambda>(kw, s). length s)"
    by simp
qed simp_all

subsection \<open>Reading the number\<close>

fun decimal :: "nat \<Rightarrow> string \<Rightarrow> nat" where
  "decimal acc [] = acc"
| "decimal acc (c # cs) = decimal (acc * 10 + (of_char c - 48)) cs"

text \<open>
  \<^verbatim>\<open>float(s)\<close> on the literals the pattern above can produce: digits, optionally
  followed by a point and more digits.
\<close>

definition py_float :: "string \<Rightarrow> py_error + real" where
  "py_float s =
     (if takeWhile is_digit s = [] then Inl ValueError
      else
        (case dropWhile is_digit s of
           [] \<Rightarrow> Inr (real (decimal 0 s))
         | c # fp \<Rightarrow>
             if c = CHR ''.'' \<and> list_all is_digit fp then
               Inr (real (decimal 0 (takeWhile is_digit s))
                    + real (decimal 0 fp) / 10 ^ length fp)
             else Inl ValueError))"

subsection \<open>The fallback parser and the pipeline\<close>

definition parse_fallback_response_try :: "string \<Rightarrow> py_error + json" where
  "parse_fallback_response_try response =
     (let status = (case search_status response of Some w \<Rightarrow> w | None \<Rightarrow> ''needs_review'')
      in case (case search_confidence response of
                 Some w \<Rightarrow> py_float w
               | None \<Rightarrow> Inr 0.5) of
           Inl e \<Rightarrow> Inl e
         | Inr confidence \<Rightarrow>
             Inr (JObj
               [(''compliance_status'', JStr status),
                (''confidence_score'', JNum (min confidence 1)),
                (''flagged_clauses'',
                   JArr (map JStr (take 5 (findall_quoted ''clause'' response)))),
                (''recommendations'',
                   JArr (map JStr (take 5 (findall_quoted ''recommend'' response)))),
                (''risk_factors'',
                   JArr (map JStr (take 5 (findall_quoted ''risk'' response))))]))"

definition parse_fallback_response :: "string \<Rightarrow> json" where
  "parse_fallback_response response =
     (case parse_fallback_response_try response of
        Inr analysis \<Rightarrow> analysis
      | Inl e \<Rightarrow>
          JObj
            [(''compliance_status'', JStr ''needs_review''),
             (''confidence_score'', JNum 0),
             (''flagged_clauses'', JArr []),
             (''recommendations'', JArr [JStr ''Manual review required'']),
             (''risk_factors'', JArr [JStr ''Analysis parsing error''])])"

text \<open>
  \<^verbatim>\<open>analyze_compliance\<close>: a parsed value is returned as it is, a text that does not
  parse goes to the fallback parser, and any other exception gives the error default.
\<close>

definition analyze_compliance :: "string \<Rightarrow> llm_outcome \<Rightarrow> json" where
  "analyze_compliance document_text outcome =
     (case outcome of
        Failed \<Rightarrow>
          JObj
            [(''compliance_status'', JStr ''needs_review''),
             (''confidence_score'', JNum 0),
             (''flagged_clauses'', JArr []),
             (''recommendations'',
                JArr [JStr ''Manual review required due to analysis error'']),
             (''risk_factors'', JArr [JStr ''Analysis system error''])]
      | Returned result (Some analysis) \<Rightarrow> analysis
      | Returned result None \<Rightarrow> parse_fallback_response result)"

section \<open>Observations used in the statements\<close>

text \<open>The value stored under a key of a dictionary.\<close>

definition field :: "json \<Rightarrow> string \<Rightarrow> json option" where
  "field x k = (case x of JObj kvs \<Rightarrow> map_of kvs k | _ \<Rightarrow> None)"

text \<open>The emergency-fund target as the validator reads it, absent meaning 0.\<close>

definition emergency_target :: "json \<Rightarrow> py_error + real" where
  "emergency_target s =
     (case dict_get s ''emergency_fund_target'' (JNum 0) of
        Inl e \<Rightarrow> Inl e
      | Inr v \<Rightarrow> as_number v)"

text \<open>The allocation percentages of a strategy, in the order of its recommendations.\<close>

definition allocation_of :: "json \<Rightarrow> real" where
  "allocation_of r =
     (case field r ''allocation_percentage'' of Some (JNum x) \<Rightarrow> x | _ \<Rightarrow> 0)"

definition allocation_percentages :: "json \<Rightarrow> real list" where
  "allocation_percentages s =
     (case field s ''investment_recommendations'' of
        Some (JArr recs) \<Rightarrow> map allocation_of recs
      | _ \<Rightarrow> [])"

text \<open>A recommendation that carries a positive number as its percentage.\<close>

definition positive_rec :: "json \<Rightarrow> bool" where
  "positive_rec r =
     (case field r ''allocation_percentage'' of Some (JNum x) \<Rightarrow> 0 < x | _ \<Rightarrow> False)"

text \<open>A strategy with a non-empty sequence of recommendations, all positive.\<close>

definition positive_allocations :: "json \<Rightarrow> bool" where
  "positive_allocations s =
     (case field s ''investment_recommendations'' of
        Some (JArr recs) \<Rightarrow> 0 < length recs \<and> list_all positive_rec recs
      | _ \<Rightarrow> False)"

text \<open>
  The two invariants of a strategy: the percentages sum to 100 within the tolerance of
  1.0, and the emergency-fund target lies between 3 and 12 times the monthly expenses
  when these are known.
\<close>

definition allocations_valid :: "json \<Rightarrow> bool" where
  "allocations_valid s =
     (case field s ''investment_recommendations'' of
        Some (JArr recs) \<Rightarrow>
          (case sum_allocations 0 recs of Inr t \<Rightarrow> \<bar>t - 100\<bar> \<le> 1 | Inl e \<Rightarrow> False)
      | _ \<Rightarrow> False)"

definition emergency_fund_valid :: "json \<Rightarrow> user_profile \<Rightarrow> bool" where
  "emergency_fund_valid s user_profile =
     (case monthly_expenses user_profile of
        None \<Rightarrow> True
      | Some expenses \<Rightarrow>
          expenses = 0 \<or>
          (case field s ''emergency_fund_target'' of
             Some (JNum t) \<Rightarrow> expenses * 3 \<le> t \<and> t \<le> expenses * 12
           | _ \<Rightarrow> False))"

text \<open>
  The frame of a strategy: the strategy with its \<^verbatim>\<open>emergency_fund_target\<close> entry and the
  \<^verbatim>\<open>allocation_percentage\<close> entry of every recommendation erased. Two strategies with
  the same frame differ at most in those entries.
\<close>

definition drop_allocation :: "json \<Rightarrow> json" where
  "drop_allocation r =
     (case r of JObj kvs \<Rightarrow> JObj (AList.delete ''allocation_percentage'' kvs) | _ \<Rightarrow> r)"

definition drop_allocations :: "json \<Rightarrow> json" where
  "drop_allocations v = (case v of JArr recs \<Rightarrow> JArr (map drop_allocation recs) | _ \<Rightarrow> v)"

definition frame_fields :: "(string \<times> json) list \<Rightarrow> (string \<times> json) list" where
  "frame_fields kvs =
     map (\<lambda>kv. if fst kv = ''investment_recommendations''
               then (fst kv, drop_allocations (snd kv)) else kv)
       (AList.delete ''emergency_fund_target'' kvs)"

definition frame_of :: "json \<Rightarrow> json" where
  "frame_of s = (case s of JObj kvs \<Rightarrow> JObj (frame_fields kvs) | _ \<Rightarrow> s)"

text \<open>The keys every compliance result must carry.\<close>

definition required_keys :: "string list" where
  "required_keys =
     [''compliance_status'', ''confidence_score'', ''flagged_clauses'', ''recommendations'',
      ''risk_factors'']"

definition has_required_keys :: "json \<Rightarrow> bool" where
  "has_required_keys x = list_all (\<lambda>k. field x k \<noteq> None) required_keys"

text \<open>The values of \<^verbatim>\<open>ComplianceStatus\<close> in \<^verbatim>\<open>app/models/schemas.py\<close>.\<close>

definition compliance_status_values :: "string list" where
  "compliance_status_values = [''compliant'', ''non_compliant'', ''needs_review'']"

text \<open>The confidence the fallback parser reads from the text before it caps it.\<close>

definition extracted_confidence :: "string \<Rightarrow> real" where
  "extracted_confidence response =
     (case search_confidence response of
        None \<Rightarrow> 0.5
      | Some w \<Rightarrow> (case py_float w of Inr x \<Rightarrow> x | Inl e \<Rightarrow> 0))"

subsection \<open>Example inputs\<close>

text \<open>A profile with monthly expenses of 4000.\<close>

definition example_profile :: user_profile where
  "example_profile =
     \<lparr>age = 35, annual_income = 75000, investment_experience = ''intermediate'',
      risk_tolerance = MODERATE, financial_goals = [''retirement''], time_horizon = 20,
      current_assets = Some 10000, monthly_expenses = Some 4000\<rparr>"

text \<open>A strategy whose percentages sum to 100, with the given emergency-fund target.\<close>

definition example_strategy :: "real \<Rightarrow> json" where
  "example_strategy target =
     JObj
       [(''strategy_summary'', JStr ''Balanced growth''),
        (''investment_recommendations'',
           JArr
             [JObj
                [(''asset_class'', JStr ''Stocks''),
                 (''allocation_percentage'', JNum 60),
                 (''rationale'', JStr ''Growth''),
                 (''risk_level'', JStr ''moderate'')],
              JObj
                [(''asset_class'', JStr ''Bonds''),
                 (''allocation_percentage'', JNum 40),
                 (''rationale'', JStr ''Stability''),
                 (''risk_level'', JStr ''conservative'')]]),
        (''monthly_savings_target'', JNum 1000),
        (''emergency_fund_target'', JNum target),
        (''key_actions'', JArr [JStr ''Automate contributions'']),
        (''risk_warnings'', JArr []),
        (''review_timeline'', JStr ''Review quarterly'')]"

text \<open>A strategy with the given percentages and nothing else.\<close>

definition allocation_strategy :: "real list \<Rightarrow> json" where
  "allocation_strategy ps =
     JObj
       [(''investment_recommendations'',
           JArr (map (\<lambda>x. JObj [(''asset_class'', JStr ''Fund''),
                                (''allocation_percentage'', JNum x)]) ps))]"

text \<open>
  A strategy whose single percentage is 50 and whose emergency-fund target came back as
  a string.
\<close>

definition string_target_strategy :: json where
  "string_target_strategy =
     JObj
       [(''investment_recommendations'',
           JArr [JObj [(''asset_class'', JStr ''Stocks''),
                       (''allocation_percentage'', JNum 50)]]),
        (''emergency_fund_target'', JStr ''15000'')]"

text \<open>
  A strategy whose single percentage came back as the string \<^verbatim>\<open>"60"\<close>, with an
  emergency-fund target of 1000.
\<close>

definition string_percentage_strategy :: json where
  "string_percentage_strategy =
     JObj
       [(''investment_recommendations'',
           JArr [JObj [(''asset_class'', JStr ''Stocks''),
                       (''allocation_percentage'', JStr ''60'')]]),
        (''emergency_fund_target'', JNum 1000)]"

text \<open>The free text of the malformed risk-assessment scenario.\<close>

definition malformed_risk_text :: string where
  "malformed_risk_text =
     ''Sure! Here'' @ [CHR 0x27]
     @ ''s my analysis: risk_level is moderate, confidence_score around 0.8...''"


section \<open>Properties of the strategy validator\<close>

subsection \<open>What the two steps leave alone\<close>

lemma adjust_allocations_other:
  "k \<noteq> ''investment_recommendations'' \<Longrightarrow>
   map_of (fst (adjust_allocations kvs)) k = map_of kvs k"
  by (auto simp: adjust_allocations_def update_conv' Let_def
      split: option.splits sum.splits prod.splits)

lemma validate_emergency_fund_other:
  "k \<noteq> ''emergency_fund_target'' \<Longrightarrow>
   map_of (fst (validate_emergency_fund p kvs)) k = map_of kvs k"
  by (auto simp: validate_emergency_fund_def update_conv' Let_def
      split: option.splits sum.splits)

lemma validate_strategy_recommendations:
  "field (validate_strategy (JObj kvs) p) ''investment_recommendations'' =
   map_of (fst (adjust_allocations kvs)) ''investment_recommendations''"
proof -
  obtain kvs1 e1 where a: "adjust_allocations kvs = (kvs1, e1)"
    by (cases "adjust_allocations kvs")
  obtain kvs2 e2 where b: "validate_emergency_fund p kvs1 = (kvs2, e2)"
    by (cases "validate_emergency_fund p kvs1")
  have "map_of kvs2 ''investment_recommendations'' = map_of kvs1 ''investment_recommendations''"
    using validate_emergency_fund_other [of "''investment_recommendations''" p kvs1] b by simp
  then show ?thesis
    by (cases e1) (simp_all add: validate_strategy_def validate_strategy_try_def a b field_def)
qed

subsection \<open>Renormalisation\<close>

lemma sum_allocations_positive:
  "list_all positive_rec recs \<Longrightarrow>
   sum_allocations acc recs = Inr (acc + sum_list (map allocation_of recs))"
proof (induction recs arbitrary: acc)
  case Nil
  then show ?case by simp
next
  case (Cons r recs)
  from Cons.prems obtain kvs x where r: "r = JObj kvs"
    "map_of kvs ''allocation_percentage'' = Some (JNum x)"
    by (auto simp: positive_rec_def field_def split: json.splits option.splits)
  have "sum_allocations acc (r # recs) = sum_allocations (acc + x) recs"
    by (simp add: r dict_get_def as_number_def)
  moreover have "allocation_of r = x"
    by (simp add: r allocation_of_def field_def)
  ultimately show ?case
    using Cons.IH [of "acc + x"] Cons.prems by simp
qed

lemma scale_all_positive:
  "list_all positive_rec recs \<Longrightarrow>
   snd (scale_all f recs) = None \<and>
   map allocation_of (fst (scale_all f recs)) = map (\<lambda>x. x * f) (map allocation_of recs)"
proof (induction recs)
  case Nil
  then show ?case by simp
next
  case (Cons r recs)
  from Cons.prems obtain kvs x where r: "r = JObj kvs"
    "map_of kvs ''allocation_percentage'' = Some (JNum x)"
    by (auto simp: positive_rec_def field_def split: json.splits option.splits)
  have s: "scale_rec f r = Inr (JObj (AList.update ''allocation_percentage'' (JNum (x * f)) kvs))"
    by (simp add: r scale_rec_def as_number_def)
  have a: "allocation_of r = x"
    by (simp add: r allocation_of_def field_def)
  have b: "allocation_of (JObj (AList.update ''allocation_percentage'' (JNum (x * f)) kvs)) = x * f"
    by (simp add: allocation_of_def field_def update_conv')
  obtain rs' err where t: "scale_all f recs = (rs', err)"
    by (cases "scale_all f recs")
  show ?case
    using Cons.IH Cons.prems by (simp add: s a b t)
qed

lemma sum_list_positive:
  "list_all positive_rec recs \<Longrightarrow> 0 < length recs \<Longrightarrow> 0 < sum_list (map allocation_of recs)"
proof (induction recs)
  case Nil
  then show ?case by simp
next
  case (Cons r recs)
  have "0 < allocation_of r"
    using Cons.prems(1)
    by (auto simp: positive_rec_def allocation_of_def split: option.splits json.splits)
  moreover have "0 \<le> sum_list (map allocation_of recs)"
  proof (cases recs)
    case Nil
    then show ?thesis by simp
  next
    case (Cons a list)
    then show ?thesis using Cons.IH Cons.prems(1) \<open>list_all positive_rec (r # recs)\<close> by simp
  qed
  ultimately show ?case by simp
qed

lemma sum_list_scaled: "sum_list (map (\<lambda>x. x * c) xs) = sum_list xs * (c::real)"
  by (induction xs) (simp_all add: algebra_simps)

text \<open>
  Claim C2, as the code has it. For a strategy with a non-empty sequence of positive
  allocation percentages whose total is \<open>T\<close>: when \<open>T\<close> is more than 1.0 away from 100
  every percentage is multiplied by \<open>100 / T\<close> and the output sums to 100; when \<open>T\<close> is
  within 1.0 of 100 the percentages are returned as they are. In both cases all outputs
  are the inputs times one common factor, so their ratios are preserved.
\<close>

theorem renormalization_respects_tolerance:
  assumes "positive_allocations s"
  shows "(let ins = allocation_percentages s;
              outs = allocation_percentages (validate_strategy s p);
              T = sum_list ins
          in if \<bar>T - 100\<bar> > 1
             then outs = map (\<lambda>x. x * (100 / T)) ins \<and> sum_list outs = 100
             else outs = ins)"
proof -
  from assms obtain kvs where s: "s = JObj kvs"
    by (cases s) (simp_all add: positive_allocations_def field_def)
  from assms obtain v where v: "map_of kvs ''investment_recommendations'' = Some v"
    unfolding s
    by (cases "map_of kvs ''investment_recommendations''")
       (simp_all add: positive_allocations_def field_def)
  from assms obtain recs where r: "map_of kvs ''investment_recommendations'' = Some (JArr recs)"
    and pos: "list_all positive_rec recs" and ne: "0 < length recs"
    unfolding s using v by (cases v) (simp_all add: positive_allocations_def field_def)
  define T where "T = sum_list (map allocation_of recs)"
  have ins: "allocation_percentages s = map allocation_of recs"
    by (simp add: s allocation_percentages_def field_def r)
  have tot: "sum_allocations 0 recs = Inr T"
    using sum_allocations_positive [OF pos, of 0] by (simp add: T_def)
  have Tpos: "0 < T"
    using sum_list_positive [OF pos ne] by (simp add: T_def)
  have out: "allocation_percentages (validate_strategy s p) =
      (case map_of (fst (adjust_allocations kvs)) ''investment_recommendations'' of
         Some (JArr recs') \<Rightarrow> map allocation_of recs' | _ \<Rightarrow> [])"
    unfolding s allocation_percentages_def validate_strategy_recommendations ..
  show ?thesis
  proof (cases "\<bar>T - 100\<bar> > 1")
    case False
    then have "adjust_allocations kvs = (kvs, None)"
      by (simp add: adjust_allocations_def r iterate_def tot)
    then show ?thesis
      using False by (simp add: out ins r T_def)
  next
    case True
    obtain recs' err where sc: "scale_all (100 / T) recs = (recs', err)"
      by (cases "scale_all (100 / T) recs")
    have recs': "map allocation_of recs' = map (\<lambda>x. x * (100 / T)) (map allocation_of recs)"
      using scale_all_positive [OF pos, of "100 / T"] sc by simp
    have "adjust_allocations kvs =
        (AList.update ''investment_recommendations'' (JArr recs') kvs, err)"
      using True Tpos
      by (simp add: adjust_allocations_def r iterate_def tot sc store_back_def)
    then have o: "allocation_percentages (validate_strategy s p) = map allocation_of recs'"
      by (simp add: out update_conv')
    have "sum_list (map (\<lambda>x. x * (100 / T)) (map allocation_of recs)) = 100"
      using Tpos unfolding sum_list_scaled by (simp add: T_def)
    then show ?thesis
      using True by (simp add: o ins recs' T_def [symmetric] Let_def)
  qed
qed

text \<open>
  The percentages 75 and 45 sum to 120 and are rescaled to 62.5 and 37.5.
\<close>

theorem renormalization_respects_tolerance_witness:
  "positive_allocations (allocation_strategy [75, 45]) \<and>
   allocation_percentages (validate_strategy (allocation_strategy [75, 45]) example_profile)
     = [62.5, 37.5]"
proof -
  have h: "positive_allocations (allocation_strategy [75, 45])"
    by (simp add: positive_allocations_def allocation_strategy_def field_def positive_rec_def)
  have i: "allocation_percentages (allocation_strategy [75, 45]) = [75, 45]"
    by (simp add: allocation_percentages_def allocation_strategy_def field_def allocation_of_def)
  show ?thesis
    using h renormalization_respects_tolerance [OF h, of example_profile]
    by (simp add: i Let_def)
qed

text \<open>
  The percentages 50 and 50.5 sum to 100.5, inside the tolerance of the validator: they
  are returned unchanged and the output does not sum to 100 within one millionth.
\<close>

theorem renormalization_counterexample:
  "\<not> \<bar>sum_list (allocation_percentages
         (validate_strategy (allocation_strategy [50, 50.5]) example_profile)) - 100\<bar>
       \<le> 1 / 1000000"
  by (simp add: validate_strategy_def validate_strategy_try_def allocation_strategy_def
      adjust_allocations_def iterate_def dict_get_def as_number_def
      validate_emergency_fund_def example_profile_def allocation_percentages_def field_def
      allocation_of_def update_conv')

subsection \<open>Idempotence on valid strategies\<close>

text \<open>
  Claim C3. A strategy that satisfies both invariants (its allocation percentages sum to
  100 within the tolerance, and its emergency-fund target lies within 3 to 12 times the
  monthly expenses when these are known) is returned by the validator unchanged.
\<close>

theorem validator_identity_on_valid:
  assumes a: "allocations_valid s" and e: "emergency_fund_valid s p"
  shows "validate_strategy s p = s"
proof -
  from a obtain kvs where s: "s = JObj kvs"
    by (cases s) (simp_all add: allocations_valid_def field_def)
  from a obtain v where v: "map_of kvs ''investment_recommendations'' = Some v"
    unfolding s
    by (cases "map_of kvs ''investment_recommendations''")
       (simp_all add: allocations_valid_def field_def)
  from a obtain recs where r: "map_of kvs ''investment_recommendations'' = Some (JArr recs)"
    unfolding s using v by (cases v) (simp_all add: allocations_valid_def field_def)
  from a obtain t where t: "sum_allocations 0 recs = Inr t" "\<bar>t - 100\<bar> \<le> 1"
    unfolding s using r
    by (cases "sum_allocations 0 recs") (simp_all add: allocations_valid_def field_def)
  have adj: "adjust_allocations kvs = (kvs, None)"
    using r t by (simp add: adjust_allocations_def iterate_def)
  have em: "validate_emergency_fund p kvs = (kvs, None)"
    using e unfolding s
    by (auto simp: emergency_fund_valid_def validate_emergency_fund_def field_def
        as_number_def Let_def split: option.splits json.splits)
  show ?thesis
    by (simp add: s validate_strategy_def validate_strategy_try_def adj em)
qed

text \<open>
  A strategy with percentages 60 and 40 and a target of 30000, for monthly expenses of
  4000.
\<close>

theorem validator_identity_on_valid_witness:
  "allocations_valid (example_strategy 30000) \<and>
   emergency_fund_valid (example_strategy 30000) example_profile \<and>
   validate_strategy (example_strategy 30000) example_profile = example_strategy 30000"
proof -
  have a: "allocations_valid (example_strategy 30000)"
    by (simp add: allocations_valid_def example_strategy_def field_def dict_get_def
        as_number_def)
  have e: "emergency_fund_valid (example_strategy 30000) example_profile"
    by (simp add: emergency_fund_valid_def example_strategy_def example_profile_def field_def)
  show ?thesis
    using a e validator_identity_on_valid [OF a e] by simp
qed

subsection \<open>The emergency-fund bound\<close>

text \<open>
  Claim C4, as the code has it. For monthly expenses \<open>E > 0\<close> and a strategy whose
  allocation block completes without raising and whose emergency-fund target is the
  number \<open>t\<close>, the validator returns the target clamped into \<open>[3E, 12E]\<close>: \<open>3E\<close> below
  the range, \<open>12E\<close> above it, \<open>t\<close> itself inside. The condition on the allocation block
  is needed: when that block raises, the \<^verbatim>\<open>except\<close> branch returns before the
  emergency-fund block is reached.
\<close>

theorem emergency_fund_clamped:
  assumes E: "monthly_expenses p = Some E" "0 < E"
    and adj: "snd (adjust_allocations kvs) = None"
    and t: "emergency_target (JObj kvs) = Inr t"
  shows "emergency_target (validate_strategy (JObj kvs) p) =
         Inr (if t < 3 * E then 3 * E else if t > 12 * E then 12 * E else t)"
proof -
  obtain kvs1 where k1: "adjust_allocations kvs = (kvs1, None)"
    using adj by (cases "adjust_allocations kvs") auto
  have same: "map_of kvs1 ''emergency_fund_target'' = map_of kvs ''emergency_fund_target''"
    using adjust_allocations_other [of "''emergency_fund_target''" kvs] k1 by simp
  show ?thesis
    using E t same
    by (auto simp: validate_strategy_def validate_strategy_try_def k1
        validate_emergency_fund_def emergency_target_def dict_get_def update_conv' Let_def
        as_number_def mult.commute split: option.splits sum.splits)
qed

lemma example_strategy_fields:
  "example_strategy x = JObj kvs \<Longrightarrow>
   snd (adjust_allocations kvs) = None \<and> emergency_target (JObj kvs) = Inr x"
  by (auto simp: example_strategy_def adjust_allocations_def iterate_def dict_get_def
      as_number_def emergency_target_def)

text \<open>
  With monthly expenses of 4000: 1000 becomes 12000, 60000 becomes 48000 and 30000 stays.
\<close>

theorem emergency_fund_clamped_witness:
  "monthly_expenses example_profile = Some 4000 \<and>
   emergency_target (validate_strategy (example_strategy 1000) example_profile) = Inr 12000 \<and>
   emergency_target (validate_strategy (example_strategy 60000) example_profile) = Inr 48000 \<and>
   emergency_target (validate_strategy (example_strategy 30000) example_profile) = Inr 30000"
proof -
  have E: "monthly_expenses example_profile = Some 4000" "(0::real) < 4000"
    by (simp_all add: example_profile_def)
  have c: "emergency_target (validate_strategy (example_strategy x) example_profile) =
      Inr (if x < 3 * 4000 then 3 * 4000 else if x > 12 * 4000 then 12 * 4000 else x)" for x
  proof -
    obtain kvs where k: "example_strategy x = JObj kvs"
      by (simp add: example_strategy_def)
    show ?thesis
      unfolding k
      using emergency_fund_clamped [OF E, of kvs x] example_strategy_fields [OF k] by simp
  qed
  show ?thesis
    using E(1) c [of 1000] c [of 60000] c [of 30000] by simp
qed

text \<open>
  With monthly expenses of 4000 and a target of 1000, a percentage that is the string
  \<^verbatim>\<open>"60"\<close> makes the sum raise \<^verbatim>\<open>TypeError\<close>; the strategy is returned with its target
  still 1000, below the lower bound of 12000.
\<close>

theorem emergency_fund_unclamped_after_failure:
  "monthly_expenses example_profile = Some 4000 \<and>
   emergency_target string_percentage_strategy = Inr 1000 \<and>
   snd (validate_strategy_try string_percentage_strategy example_profile) = Some TypeError \<and>
   emergency_target (validate_strategy string_percentage_strategy example_profile) = Inr 1000 \<and>
   \<not> (3 * 4000 \<le> (1000::real))"
  by (simp add: validate_strategy_def validate_strategy_try_def string_percentage_strategy_def
      adjust_allocations_def iterate_def dict_get_def as_number_def emergency_target_def
      example_profile_def)

subsection \<open>The frame of the validator\<close>

lemma scale_rec_frame: "scale_rec f r = Inr r' \<Longrightarrow> drop_allocation r' = drop_allocation r"
  by (auto simp: scale_rec_def drop_allocation_def delete_update_same
      split: json.splits option.splits sum.splits)

lemma scale_all_frame: "map drop_allocation (fst (scale_all f rs)) = map drop_allocation rs"
  by (induction rs) (auto simp: scale_rec_frame split: sum.splits prod.splits)

lemma store_back_frame:
  "iterate v = Inr recs \<Longrightarrow> map drop_allocation recs' = map drop_allocation recs \<Longrightarrow>
   drop_allocations (store_back v recs') = drop_allocations v"
  by (auto simp: iterate_def store_back_def drop_allocations_def split: json.splits)

lemma frame_fields_update_target:
  "frame_fields (AList.update ''emergency_fund_target'' v kvs) = frame_fields kvs"
  by (simp add: frame_fields_def delete_update_same)

lemma frame_fields_update_recs:
  "map_of kvs ''investment_recommendations'' = Some v \<Longrightarrow>
   drop_allocations v' = drop_allocations v \<Longrightarrow>
   frame_fields (AList.update ''investment_recommendations'' v' kvs) = frame_fields kvs"
  by (induction kvs) (auto simp: frame_fields_def)

lemma scaled_frame:
  assumes "map_of kvs ''investment_recommendations'' = Some v" "iterate v = Inr recs"
    and "scale_all f recs = (recs', err)"
  shows "frame_fields (AList.update ''investment_recommendations'' (store_back v recs') kvs)
         = frame_fields kvs"
proof -
  have "map drop_allocation recs' = map drop_allocation recs"
    using scale_all_frame [of f recs] assms(3) by simp
  then show ?thesis
    by (intro frame_fields_update_recs [OF assms(1)] store_back_frame [OF assms(2)])
qed

lemma adjust_allocations_frame: "frame_fields (fst (adjust_allocations kvs)) = frame_fields kvs"
proof (cases "map_of kvs ''investment_recommendations''")
  case None
  then show ?thesis by (simp add: adjust_allocations_def)
next
  case (Some v)
  show ?thesis
  proof (cases "iterate v")
    case (Inl e)
    then show ?thesis by (simp add: adjust_allocations_def Some)
  next
    case (Inr recs)
    show ?thesis
    proof (cases "sum_allocations 0 recs")
      case (Inl e)
      then show ?thesis by (simp add: adjust_allocations_def Some Inr)
    next
      case tot: (Inr t)
      show ?thesis
        by (auto simp: adjust_allocations_def Some Inr tot Let_def scaled_frame [OF Some Inr]
            split: prod.splits)
    qed
  qed
qed

lemma validate_emergency_fund_frame:
  "frame_fields (fst (validate_emergency_fund p kvs)) = frame_fields kvs"
  by (auto simp: validate_emergency_fund_def Let_def frame_fields_update_target
      split: option.splits sum.splits)

text \<open>
  Claim C10, as the code has it. For every input the validator returns a strategy with
  the frame of its input: it differs from the input at most in the
  \<^verbatim>\<open>allocation_percentage\<close> entries of the recommendations and in the
  \<^verbatim>\<open>emergency_fund_target\<close> entry, and every other key and value is unchanged. This
  holds as well when a step raises, where the validator returns the strategy instead of
  an error.
\<close>

theorem validator_frame: "frame_of (validate_strategy s p) = frame_of s"
proof (cases s)
  case (JObj kvs)
  obtain kvs1 e1 where a: "adjust_allocations kvs = (kvs1, e1)"
    by (cases "adjust_allocations kvs")
  obtain kvs2 e2 where b: "validate_emergency_fund p kvs1 = (kvs2, e2)"
    by (cases "validate_emergency_fund p kvs1")
  have f1: "frame_fields kvs1 = frame_fields kvs"
    using adjust_allocations_frame [of kvs] a by simp
  have f2: "frame_fields kvs2 = frame_fields kvs1"
    using validate_emergency_fund_frame [of p kvs1] b by simp
  show ?thesis
    using f1 f2
    by (cases e1) (simp_all add: JObj validate_strategy_def validate_strategy_try_def a b
        frame_of_def)
qed (simp_all add: validate_strategy_def validate_strategy_try_def)

text \<open>
  A failing step does not restore the input. The percentage 50 is rescaled to 100, then
  the comparison of the string target with the lower bound raises \<^verbatim>\<open>TypeError\<close>, and
  the strategy is returned with the rescaled percentage.
\<close>

theorem validator_failure_keeps_changes:
  "snd (validate_strategy_try string_target_strategy example_profile) = Some TypeError \<and>
   validate_strategy string_target_strategy example_profile \<noteq> string_target_strategy \<and>
   allocation_percentages string_target_strategy = [50] \<and>
   allocation_percentages (validate_strategy string_target_strategy example_profile) = [100]"
  by (simp add: validate_strategy_def validate_strategy_try_def string_target_strategy_def
      adjust_allocations_def iterate_def dict_get_def as_number_def store_back_def
      scale_rec_def validate_emergency_fund_def example_profile_def allocation_percentages_def
      field_def allocation_of_def update_conv')


section \<open>Properties of the fallback synthesizers\<close>

lemma basic_allocation_total: "100 \<le> fst (basic_allocation r a) + snd (basic_allocation r a)"
  by (cases r) (auto simp: basic_allocation_def)

text \<open>
  Claim C5. The fallback strategy is a function of the profile: two profiles with age 35,
  moderate risk tolerance, an annual income of 75000 and monthly expenses of 4000 give the
  same output. Its stock and bond allocations are 62.5 and 37.5, summing to 100, its
  monthly savings target is 937.5 and its emergency-fund target is 24000; with the
  expenses unknown (\<^verbatim>\<open>None\<close> or 0) the emergency-fund target is 18000.
\<close>

theorem fallback_strategy_moderate_35:
  assumes "age p = 35" "risk_tolerance p = MODERATE" "annual_income p = 75000"
    "monthly_expenses p = Some 4000"
    and "age q = 35" "risk_tolerance q = MODERATE" "annual_income q = 75000"
    "monthly_expenses q = Some 4000"
  shows "generate_fallback_strategy p = generate_fallback_strategy q \<and>
    allocation_percentages (generate_fallback_strategy p) = [62.5, 37.5] \<and>
    sum_list (allocation_percentages (generate_fallback_strategy p)) = 100 \<and>
    field (generate_fallback_strategy p) ''monthly_savings_target'' = Some (JNum 937.5) \<and>
    field (generate_fallback_strategy p) ''emergency_fund_target'' = Some (JNum 24000) \<and>
    field (generate_fallback_strategy (p\<lparr>monthly_expenses := None\<rparr>)) ''emergency_fund_target''
      = Some (JNum 18000) \<and>
    field (generate_fallback_strategy (p\<lparr>monthly_expenses := Some 0\<rparr>)) ''emergency_fund_target''
      = Some (JNum 18000)"
  using assms
  by (simp add: generate_fallback_strategy_def basic_allocation_def py_round1_def
      round_half_even_def expenses_or_default_def allocation_percentages_def allocation_of_def
      field_def Let_def)

text \<open>The example profile has these four values.\<close>

theorem fallback_strategy_moderate_35_witness:
  "age example_profile = 35 \<and> risk_tolerance example_profile = MODERATE \<and>
   annual_income example_profile = 75000 \<and> monthly_expenses example_profile = Some 4000 \<and>
   allocation_percentages (generate_fallback_strategy example_profile) = [62.5, 37.5] \<and>
   field (generate_fallback_strategy example_profile) ''monthly_savings_target''
     = Some (JNum 937.5) \<and>
   field (generate_fallback_strategy example_profile) ''emergency_fund_target''
     = Some (JNum 24000)"
proof -
  have h: "age example_profile = 35" "risk_tolerance example_profile = MODERATE"
    "annual_income example_profile = 75000" "monthly_expenses example_profile = Some 4000"
    by (simp_all add: example_profile_def)
  show ?thesis
    using h fallback_strategy_moderate_35 [OF h h] by simp
qed


text \<open>
  Claim C7, as the code has it. For the malformed text of the scenario the risk
  assessment is the fixed fallback: risk level moderate, confidence score 0.7, overall
  risk score 0.5 and the one risk factor Market Volatility. Nothing is read from the
  text.
\<close>

theorem malformed_risk_text_gives_fallback:
  "(let r = assess_financial_risk financial_data scenario_type
              (Returned malformed_risk_text None)
    in field r ''risk_level'' = Some (JStr ''moderate'') \<and>
       field r ''confidence_score'' = Some (JNum 0.7) \<and>
       field r ''overall_risk_score'' = Some (JNum 0.5) \<and>
       (\<exists>factor. field r ''risk_factors'' = Some (JArr [factor]) \<and>
          field factor ''factor_name'' = Some (JStr ''Market Volatility'')))"
  by (simp add: assess_financial_risk_def generate_fallback_risk_assessment_def field_def)

text \<open>The confidence score of the result is not the 0.8 that the text mentions.\<close>

theorem malformed_risk_text_confidence_not_extracted:
  "field (assess_financial_risk (JObj [(''annual_income'', JNum 75000)]) ''general''
            (Returned malformed_risk_text None)) ''confidence_score''
   \<noteq> Some (JNum 0.8)"
  by (simp add: assess_financial_risk_def generate_fallback_risk_assessment_def field_def)


section \<open>Properties of the compliance fallback parser\<close>

subsection \<open>What the patterns can match\<close>

lemma quoted_word_is_word:
  "quoted_word s = Some w \<Longrightarrow> 0 < length w \<and> list_all is_word w"
  by (cases s) (auto simp: quoted_word_def list_all_iff split: if_splits dest: set_takeWhileD)

lemma lazy_quoted_word_is_word:
  "lazy_quoted_word s = Some w \<Longrightarrow> 0 < length w \<and> list_all is_word w"
proof (induction s)
  case Nil
  then show ?case by simp
next
  case (Cons c cs)
  then show ?case
    using quoted_word_is_word [of "c # cs" w]
    by (cases "quoted_word (c # cs)") (auto split: if_splits)
qed

lemma search_status_is_word:
  "search_status s = Some w \<Longrightarrow> 0 < length w \<and> list_all is_word w"
proof (induction s)
  case Nil
  then show ?case by simp
next
  case (Cons c cs)
  show ?case
  proof (cases "starts_with_ci ''compliance_status'' (c # cs)")
    case False
    then show ?thesis using Cons by simp
  next
    case True
    show ?thesis
    proof (cases "lazy_quoted_word (drop (length ''compliance_status'') (c # cs))")
      case None
      then show ?thesis using Cons True by simp
    next
      case (Some w')
      then have "w' = w" using Cons.prems True by simp
      then show ?thesis using lazy_quoted_word_is_word [OF Some] by simp
    qed
  qed
qed

lemma dot_not_digit: "\<not> is_digit (CHR ''.'')"
  by (simp add: is_digit_def)

lemma number_token_float:
  assumes "number_token s = Some w"
  shows "\<exists>x. py_float w = Inr x \<and> 0 \<le> x"
proof -
  define ds where "ds = takeWhile is_digit s"
  have ne: "ds \<noteq> []"
    using assms by (auto simp: number_token_def ds_def split: if_splits)
  have all: "\<forall>c\<in>set ds. is_digit c"
    by (auto simp: ds_def dest: set_takeWhileD)
  show ?thesis
  proof (cases "\<exists>r. dropWhile is_digit s = CHR ''.'' # r")
    case False
    then have w: "w = ds"
      using assms by (auto simp: number_token_def ds_def split: if_splits list.splits)
    have tk: "takeWhile is_digit ds = ds" and dr: "dropWhile is_digit ds = []"
      using all by simp_all
    show ?thesis
      using ne by (simp add: w py_float_def tk dr)
  next
    case True
    then obtain r where r: "dropWhile is_digit s = CHR ''.'' # r" by blast
    define fp where "fp = takeWhile is_digit r"
    have w: "w = ds @ CHR ''.'' # fp"
      using assms r by (auto simp: number_token_def ds_def fp_def split: if_splits)
    have t: "takeWhile is_digit w = ds"
      using all by (simp add: w dot_not_digit)
    have d: "dropWhile is_digit w = CHR ''.'' # fp"
      using all by (simp add: w dot_not_digit)
    have f: "list_all is_digit fp"
      by (auto simp: fp_def list_all_iff dest: set_takeWhileD)
    show ?thesis
      using ne f by (simp add: py_float_def t d)
  qed
qed

lemma lazy_number_float:
  "lazy_number s = Some w \<Longrightarrow> \<exists>x. py_float w = Inr x \<and> 0 \<le> x"
proof (induction s)
  case Nil
  then show ?case by simp
next
  case (Cons c cs)
  then show ?case
    using number_token_float [of "c # cs" w]
    by (cases "number_token (c # cs)") (auto split: if_splits)
qed

lemma search_confidence_float:
  "search_confidence s = Some w \<Longrightarrow> \<exists>x. py_float w = Inr x \<and> 0 \<le> x"
proof (induction s)
  case Nil
  then show ?case by simp
next
  case (Cons c cs)
  show ?case
  proof (cases "starts_with ''confidence_score'' (c # cs)")
    case False
    then show ?thesis using Cons by (simp del: starts_with.simps)
  next
    case True
    show ?thesis
    proof (cases "lazy_number (drop (length ''confidence_score'') (c # cs))")
      case None
      then show ?thesis using Cons True by (simp del: starts_with.simps)
    next
      case (Some w')
      then have "w' = w" using Cons.prems True by (simp del: starts_with.simps)
      then show ?thesis using lazy_number_float [OF Some] by simp
    qed
  qed
qed

text \<open>The \<^verbatim>\<open>try\<close> block of the fallback parser always completes.\<close>

lemma parse_fallback_response_try_value:
  "parse_fallback_response_try response =
   Inr (JObj
     [(''compliance_status'',
         JStr (case search_status response of Some w \<Rightarrow> w | None \<Rightarrow> ''needs_review'')),
      (''confidence_score'', JNum (min (extracted_confidence response) 1)),
      (''flagged_clauses'', JArr (map JStr (take 5 (findall_quoted ''clause'' response)))),
      (''recommendations'', JArr (map JStr (take 5 (findall_quoted ''recommend'' response)))),
      (''risk_factors'', JArr (map JStr (take 5 (findall_quoted ''risk'' response))))])"
proof (cases "search_confidence response")
  case None
  then show ?thesis
    by (simp add: parse_fallback_response_try_def extracted_confidence_def)
next
  case (Some w)
  then obtain x where "py_float w = Inr x"
    using search_confidence_float by blast
  then show ?thesis
    by (simp add: parse_fallback_response_try_def extracted_confidence_def Some)
qed

lemma extracted_confidence_nonneg: "0 \<le> extracted_confidence response"
proof (cases "search_confidence response")
  case None
  then show ?thesis by (simp add: extracted_confidence_def)
next
  case (Some w)
  then obtain x where "py_float w = Inr x" "0 \<le> x"
    using search_confidence_float by blast
  then show ?thesis by (simp add: extracted_confidence_def Some)
qed

lemma parse_fallback_response_value:
  "parse_fallback_response response =
   JObj
     [(''compliance_status'',
         JStr (case search_status response of Some w \<Rightarrow> w | None \<Rightarrow> ''needs_review'')),
      (''confidence_score'', JNum (min (extracted_confidence response) 1)),
      (''flagged_clauses'', JArr (map JStr (take 5 (findall_quoted ''clause'' response)))),
      (''recommendations'', JArr (map JStr (take 5 (findall_quoted ''recommend'' response)))),
      (''risk_factors'', JArr (map JStr (take 5 (findall_quoted ''risk'' response))))]"
  by (simp add: parse_fallback_response_def parse_fallback_response_try_value)

subsection \<open>Totality\<close>

text \<open>
  Claim C1, as the code has it. For every text the \<^verbatim>\<open>try\<close> block of the fallback parser
  completes, and the fallback parser returns a mapping with every required key. So does
  the compliance analysis for every text that does not parse as JSON, and when the call
  fails.
\<close>

theorem fallback_parser_total:
  "(\<exists>analysis. parse_fallback_response_try response = Inr analysis) \<and>
   has_required_keys (parse_fallback_response response) \<and>
   has_required_keys (analyze_compliance document_text (Returned response None)) \<and>
   has_required_keys (analyze_compliance document_text Failed)"
  by (simp add: parse_fallback_response_try_value parse_fallback_response_value
      analyze_compliance_def has_required_keys_def required_keys_def field_def)

text \<open>
  A text that parses is returned as parsed: for the text \<^verbatim>\<open>{}\<close> the result is the empty
  mapping, with no required key.
\<close>

theorem parsed_json_returned_without_defaults:
  "\<not> has_required_keys
       (analyze_compliance ''Loan agreement'' (Returned ''{}'' (Some (JObj []))))"
  by (simp add: analyze_compliance_def has_required_keys_def required_keys_def field_def)

subsection \<open>The compliance status\<close>

text \<open>
  Claim C9, as the code has it. For a text that does not parse as JSON the compliance
  status is the first quoted word that the pattern finds after \<^verbatim>\<open>compliance_status\<close>, a
  non-empty run of word characters whatever it spells, or \<^verbatim>\<open>needs_review\<close> when there
  is none; when the call fails it is \<^verbatim>\<open>needs_review\<close>.
\<close>

theorem fallback_status_is_word_or_default:
  "(\<exists>st. field (analyze_compliance document_text (Returned response None))
            ''compliance_status'' = Some (JStr st) \<and>
         st = (case search_status response of Some w \<Rightarrow> w | None \<Rightarrow> ''needs_review'') \<and>
         (st = ''needs_review'' \<or> 0 < length st \<and> list_all is_word st)) \<and>
   field (analyze_compliance document_text Failed) ''compliance_status''
     = Some (JStr ''needs_review'')"
proof -
  have "st = ''needs_review'' \<or> 0 < length st \<and> list_all is_word st"
    if "st = (case search_status response of Some w \<Rightarrow> w | None \<Rightarrow> ''needs_review'')" for st
    using that search_status_is_word [of response]
    by (cases "search_status response") simp_all
  then show ?thesis
    by (simp add: analyze_compliance_def parse_fallback_response_value field_def)
qed

text \<open>The quoted word \<^verbatim>\<open>maybe\<close> is returned as the status; it is no enum value.\<close>

theorem fallback_status_outside_enum:
  \<open>field (analyze_compliance ''Loan agreement''
            (Returned ''compliance_status: "maybe"'' None)) ''compliance_status''
     = Some (JStr ''maybe'') \<and>
   ''maybe'' \<notin> set compliance_status_values\<close>
  by (simp add: analyze_compliance_def parse_fallback_response_value field_def
      compliance_status_values_def starts_with_ci_def lower_def quoted_word_def is_quote_def
      is_word_def)

subsection \<open>Score clamping\<close>

text \<open>
  Claim C6, as the code has it. For a text that does not parse as JSON the confidence
  score of the compliance analysis is \<open>min c 1\<close>, where \<open>c \<ge> 0\<close> is the unsigned decimal
  read after \<^verbatim>\<open>confidence_score\<close> (0.5 when there is none). It lies in \<open>[0, 1]\<close>; 0, 1
  and 0.37 are returned unchanged, 1.01 becomes 1, and of \<^verbatim>\<open>-0.01\<close> the sign is not read,
  which gives 0.01.
\<close>

theorem fallback_confidence_capped:
  "field (analyze_compliance document_text (Returned response None)) ''confidence_score''
     = Some (JNum (min (extracted_confidence response) 1)) \<and>
   0 \<le> extracted_confidence response \<and>
   0 \<le> min (extracted_confidence response) 1 \<and>
   min (extracted_confidence response) 1 \<le> 1 \<and>
   field (analyze_compliance document_text (Returned ''confidence_score: 0'' None))
     ''confidence_score'' = Some (JNum 0) \<and>
   field (analyze_compliance document_text (Returned ''confidence_score: 1'' None))
     ''confidence_score'' = Some (JNum 1) \<and>
   field (analyze_compliance document_text (Returned ''confidence_score: 0.37'' None))
     ''confidence_score'' = Some (JNum 0.37) \<and>
   field (analyze_compliance document_text (Returned ''confidence_score: 1.01'' None))
     ''confidence_score'' = Some (JNum 1) \<and>
   field (analyze_compliance document_text (Returned ''confidence_score: -0.01'' None))
     ''confidence_score'' = Some (JNum 0.01)"
proof -
  have a: "field (analyze_compliance document_text (Returned r None)) ''confidence_score''
      = Some (JNum (min (extracted_confidence r) 1))" for r
    by (simp add: analyze_compliance_def parse_fallback_response_value field_def)
  have b: "0 \<le> extracted_confidence response"
    by (rule extracted_confidence_nonneg)
  have c: "extracted_confidence ''confidence_score: 0'' = 0"
    "extracted_confidence ''confidence_score: 1'' = 1"
    "extracted_confidence ''confidence_score: 0.37'' = 0.37"
    "extracted_confidence ''confidence_score: 1.01'' = 1.01"
    "extracted_confidence ''confidence_score: -0.01'' = 0.01"
    by (simp_all add: extracted_confidence_def number_token_def is_digit_def py_float_def)
  show ?thesis
    using b by (simp add: a c)
qed

text \<open>
  A score in a text that parses is returned as parsed: an overall risk score of 1.01
  stays 1.01.
\<close>

theorem parsed_risk_score_not_clamped:
  \<open>field (assess_financial_risk (JObj [(''annual_income'', JNum 75000)]) ''general''
            (Returned ''{"overall_risk_score": 1.01}''
               (Some (JObj [(''overall_risk_score'', JNum 1.01)]))))
      ''overall_risk_score'' = Some (JNum 1.01) \<and>
   \<not> (1.01::real) \<le> 1\<close>
  by (simp add: assess_financial_risk_def field_def)

end
